theory Spec2Isabelle
  imports Complex_Main "HOL-Library.Log_Nat"
begin

section \<open>Python and numpy values\<close>

text \<open>
  The notebooks of the repository are numpy scripts. A floating-point number is
  modelled as a real, and a number that may be the invalid marker NaN as a
  \<open>real option\<close> with \<open>None\<close> for NaN. An exception raised by Python or numpy is a
  value of the type \<open>error\<close>, and a computation that may raise returns \<open>error + 'a\<close>.
\<close>

datatype error = IndexError | ValueError | ZeroDivisionError | TypeError

definition bind :: "error + 'a \<Rightarrow> ('a \<Rightarrow> error + 'b) \<Rightarrow> error + 'b" where
  "bind m f = (case m of Inl e \<Rightarrow> Inl e | Inr x \<Rightarrow> f x)"

type_synonym float = "real option"

definition nan :: float where
  "nan = None"

text \<open>Arithmetic with NaN: any operand NaN gives NaN.\<close>

definition flift2 :: "(real \<Rightarrow> real \<Rightarrow> real) \<Rightarrow> float \<Rightarrow> float \<Rightarrow> float" where
  "flift2 f a b =
     (case a of None \<Rightarrow> None
      | Some x \<Rightarrow> (case b of None \<Rightarrow> None | Some y \<Rightarrow> Some (f x y)))"

definition fadd :: "float \<Rightarrow> float \<Rightarrow> float" where
  "fadd = flift2 (+)"

definition fsub :: "float \<Rightarrow> float \<Rightarrow> float" where
  "fsub = flift2 (-)"

definition fmul :: "float \<Rightarrow> float \<Rightarrow> float" where
  "fmul = flift2 (*)"

text \<open>Comparison with NaN: \<^verbatim>\<open>a < b\<close> is false when either side is NaN.\<close>

definition flt :: "float \<Rightarrow> float \<Rightarrow> bool" where
  "flt a b =
     (case a of None \<Rightarrow> False
      | Some x \<Rightarrow> (case b of None \<Rightarrow> False | Some y \<Rightarrow> x < y))"

text \<open>\<^verbatim>\<open>np.radians(x)\<close>: degrees to radians.\<close>

definition radians :: "real \<Rightarrow> real" where
  "radians x = x * pi / 180"

subsection \<open>One-dimensional arrays\<close>

text \<open>
  A binary operator on two one-dimensional arrays: element by element when the sizes
  agree, an array of size 1 is stretched to the other's size, and any other pair of
  sizes raises ValueError (operands could not be broadcast together).
\<close>

definition broadcast2 :: "('a \<Rightarrow> 'b \<Rightarrow> 'c) \<Rightarrow> 'a list \<Rightarrow> 'b list \<Rightarrow> error + 'c list" where
  "broadcast2 f a b =
     (if length a = length b then Inr (map2 f a b)
      else (case b of [y] \<Rightarrow> Inr (map (\<lambda>x. f x y) a)
            | _ \<Rightarrow> (case a of [x] \<Rightarrow> Inr (map (\<lambda>y. f x y) b)
                    | _ \<Rightarrow> Inl ValueError)))"

definition arr :: "real list \<Rightarrow> float list" where
  "arr xs = map Some xs"

definition np_sub :: "float list \<Rightarrow> float list \<Rightarrow> error + float list" where
  "np_sub a b = broadcast2 fsub a b"

definition np_sub_scalar :: "float list \<Rightarrow> float \<Rightarrow> float list" where
  "np_sub_scalar a c = map (\<lambda>x. fsub x c) a"

definition np_square :: "float list \<Rightarrow> float list" where
  "np_square a = map (\<lambda>x. fmul x x) a"

definition np_sum :: "float list \<Rightarrow> float" where
  "np_sum a = foldr fadd a (Some 0)"

text \<open>\<^verbatim>\<open>np.mean\<close> of an empty array is NaN.\<close>

definition np_mean :: "float list \<Rightarrow> float" where
  "np_mean a = (if a = [] then nan else flift2 (/) (np_sum a) (Some (real (length a))))"

text \<open>\<^verbatim>\<open>np.arange(a, b)\<close> for integers, read as floats.\<close>

definition arange :: "nat \<Rightarrow> nat \<Rightarrow> real list" where
  "arange a b = map real [a..<b]"

text \<open>
  \<^verbatim>\<open>np.column_stack\<close> of one-dimensional arrays: the arrays become the columns of a
  two-dimensional array, given as the list of its rows; arrays of different sizes raise
  ValueError.
\<close>

definition column_stack :: "real list list \<Rightarrow> error + real list list" where
  "column_stack cols =
     (case cols of [] \<Rightarrow> Inl ValueError
      | c # cs \<Rightarrow>
          if list_all (\<lambda>c'. length c' = length c) cs
          then Inr (map (\<lambda>i. map (\<lambda>col. col ! i) cols) [0..<length c])
          else Inl ValueError)"

subsection \<open>Two-dimensional arrays\<close>

text \<open>
  A raster band read by \<^verbatim>\<open>ReadAsArray\<close> is a two-dimensional array: its shape and its
  cells by row and column.
\<close>

record 'a ndarray =
  nrows :: nat
  ncols :: nat
  cell :: "nat \<Rightarrow> nat \<Rightarrow> 'a"

definition shape :: "'a ndarray \<Rightarrow> nat \<times> nat" where
  "shape a = (nrows a, ncols a)"

text \<open>\<^verbatim>\<open>a < c\<close>: the boolean array of the comparison of every cell with a scalar.\<close>

definition lt_scalar :: "float ndarray \<Rightarrow> float \<Rightarrow> bool ndarray" where
  "lt_scalar a c = \<lparr>nrows = nrows a, ncols = ncols a, cell = (\<lambda>i j. flt (cell a i j) c)\<rparr>"

text \<open>
  numpy's check of a boolean index \<open>m\<close> against the array \<open>a\<close> it indexes: the index is
  rejected when one of its dimensions has a length other than 0 that differs from the
  length of the same dimension of \<open>a\<close>. A dimension of length 0 is not compared.
\<close>

definition mask_rejected :: "'a ndarray \<Rightarrow> 'b ndarray \<Rightarrow> bool" where
  "mask_rejected a m =
     ((0 < nrows m \<and> nrows m \<noteq> nrows a) \<or> (0 < ncols m \<and> ncols m \<noteq> ncols a))"

text \<open>
  \<^verbatim>\<open>a[m] = v\<close> with a boolean array \<open>m\<close>: numpy raises IndexError (boolean index did
  not match indexed array) when the index is rejected. Otherwise it stores \<open>v\<close> in the
  cells where \<open>m\<close> is true; an accepted index of another shape has a dimension of
  length 0, hence no cell, and nothing is stored.
\<close>

definition setitem_mask :: "float ndarray \<Rightarrow> bool ndarray \<Rightarrow> float \<Rightarrow> error + float ndarray" where
  "setitem_mask a m v =
     (if mask_rejected a m then Inl IndexError
      else if shape m = shape a
        then Inr (a\<lparr>cell := (\<lambda>i j. if cell m i j then v else cell a i j)\<rparr>)
        else Inr a)"

text \<open>\<^verbatim>\<open>a *= k\<close> with a scalar \<open>k\<close>.\<close>

definition imul_scalar :: "float ndarray \<Rightarrow> float \<Rightarrow> float ndarray" where
  "imul_scalar a k = a\<lparr>cell := (\<lambda>i j. fmul (cell a i j) k)\<rparr>"

section \<open>Masking and unit conversion\<close>

text \<open>
  The notebook \<^verbatim>\<open>quadtree_decomposition_kite_workflow.ipynb\<close>:
  \<^verbatim>\<open>
  if use_water_mask==True:
      ...
      ifg[msk<1]=np.nan
  ifg*=wavel/4/math.pi
  ifg[cor<cor_thresh]=np.nan
  \<close>
  The water mask is \<open>Some msk\<close> when \<^verbatim>\<open>use_water_mask\<close> is true. The array
  \<^verbatim>\<open>ifg\<close> is updated in place; \<open>mask_convert\<close> is the outcome of the three
  statements, the final array or the exception raised.
\<close>

definition mask_convert ::
  "float ndarray \<Rightarrow> float ndarray \<Rightarrow> float ndarray option \<Rightarrow> real \<Rightarrow> real
   \<Rightarrow> error + float ndarray" where
  "mask_convert ifg cor msk wavel cor_thresh =
     bind (case msk of None \<Rightarrow> Inr ifg
           | Some m \<Rightarrow> setitem_mask ifg (lt_scalar m (Some 1)) nan)
       (\<lambda>ifg1. setitem_mask (imul_scalar ifg1 (Some (wavel / 4 / pi)))
                 (lt_scalar cor (Some cor_thresh)) nan)"


text \<open>
  The notebook \<^verbatim>\<open>quadtree_decomposition_kite.ipynb\<close> of 2021:
  \<^verbatim>\<open>
  sc.displacement*=wavel/4/math.pi
  sc.displacement[msk<1]=np.nan
  sc.displacement[cor<cor_thresh]=np.nan
  \<close>
\<close>

definition mask_convert_2021 ::
  "float ndarray \<Rightarrow> float ndarray \<Rightarrow> float ndarray \<Rightarrow> real \<Rightarrow> real
   \<Rightarrow> error + float ndarray" where
  "mask_convert_2021 displacement cor msk wavel cor_thresh =
     bind (setitem_mask (imul_scalar displacement (Some (wavel / 4 / pi)))
             (lt_scalar msk (Some 1)) nan)
       (\<lambda>d1. setitem_mask d1 (lt_scalar cor (Some cor_thresh)) nan)"

text \<open>The grids of the stage have matching dimensions.\<close>

definition shapes_match :: "float ndarray \<Rightarrow> float ndarray \<Rightarrow> float ndarray option \<Rightarrow> bool" where
  "shapes_match ifg cor msk =
     (shape cor = shape ifg \<and> (case msk of None \<Rightarrow> True | Some m \<Rightarrow> shape m = shape ifg))"



text \<open>
  The pixel is to be masked: its coherence is strictly below the threshold, or its
  water-mask value is strictly below 1.
\<close>

definition masked :: "float ndarray \<Rightarrow> float ndarray option \<Rightarrow> real \<Rightarrow> nat \<Rightarrow> nat \<Rightarrow> bool" where
  "masked cor msk cor_thresh i j =
     (flt (cell cor i j) (Some cor_thresh) \<or>
      (case msk of None \<Rightarrow> False | Some m \<Rightarrow> flt (cell m i j) (Some 1)))"

section \<open>Scene angles and line-of-sight components\<close>

text \<open>
  \<^verbatim>\<open>sc.theta=np.radians(90-inc[nrows-ymax:nrows-ymin,xmin:xmax])\<close> and
  \<^verbatim>\<open>sc.phi=np.radians(90+azi[nrows-ymax:nrows-ymin,xmin:xmax])\<close>, at one pixel:
  \<open>inc\<close> and \<open>azi\<close> are the incidence and azimuth bands of the line-of-sight file, in
  degrees.
\<close>

definition scene_theta :: "real \<Rightarrow> real" where
  "scene_theta inc = radians (90 - inc)"

definition scene_phi :: "real \<Rightarrow> real" where
  "scene_phi azi = radians (90 + azi)"

text \<open>
  \<^verbatim>\<open>losx=np.cos(qt.leaf_thetas)*-np.cos(qt.leaf_phis)\<close>,
  \<^verbatim>\<open>losy=np.cos(qt.leaf_thetas)*-np.sin(qt.leaf_phis)\<close>,
  \<^verbatim>\<open>losz=-np.sin(qt.leaf_thetas)\<close>, at one leaf.
\<close>

definition losx_at :: "real \<Rightarrow> real \<Rightarrow> real" where
  "losx_at theta phi = cos theta * - cos phi"

definition losy_at :: "real \<Rightarrow> real \<Rightarrow> real" where
  "losy_at theta phi = cos theta * - sin phi"

definition losz_at :: "real \<Rightarrow> real" where
  "losz_at theta = - sin theta"

text \<open>The Euclidean length of the three components.\<close>

definition los_norm :: "real \<Rightarrow> real \<Rightarrow> real" where
  "los_norm theta phi =
     sqrt ((losx_at theta phi)\<^sup>2 + (losy_at theta phi)\<^sup>2 + (losz_at theta)\<^sup>2)"

section \<open>Reformatting the quadtree output\<close>

text \<open>
  The quadtree itself is computed by the kite library; the notebook reads these arrays
  of it, one entry per leaf.
\<close>

record quadtree =
  leaf_focal_points :: "(real \<times> real) list"
  leaf_thetas :: "real list"
  leaf_phis :: "real list"
  leaf_means :: "real list"

text \<open>
  The rows of \<^verbatim>\<open>okinv_data\<close>:
  \<^verbatim>\<open>
  xyll=np.column_stack((qt.leaf_focal_points[:,0]+reflon,qt.leaf_focal_points[:,1]+reflat))
  losx=np.cos(qt.leaf_thetas)*-np.cos(qt.leaf_phis)
  losy=np.cos(qt.leaf_thetas)*-np.sin(qt.leaf_phis)
  losz=-np.sin(qt.leaf_thetas)
  dataptid=np.arange(1,losx.size+1)
  xym = utm.from_latlon(xyll[:,1],xyll[:,0])
  xkm = xym[0]/1000
  ykm = xym[1]/1000
  okinv_data=np.column_stack((xkm,ykm,qt.leaf_means,losx,losy,losz,dataptid))
  \<close>
  The projection \<^verbatim>\<open>utm.from_latlon\<close> belongs to the utm library and is a parameter: it
  takes the latitudes and the longitudes and returns the eastings and the northings,
  in metres.
\<close>

definition okinv_data ::
  "(real list \<Rightarrow> real list \<Rightarrow> real list \<times> real list) \<Rightarrow> quadtree \<Rightarrow> real \<Rightarrow> real
   \<Rightarrow> error + real list list" where
  "okinv_data from_latlon qt reflon reflat =
     (let xyll0 = map (\<lambda>p. fst p + reflon) (leaf_focal_points qt);
          xyll1 = map (\<lambda>p. snd p + reflat) (leaf_focal_points qt)
      in bind (broadcast2 (*) (map cos (leaf_thetas qt)) (map (\<lambda>p. - cos p) (leaf_phis qt)))
        (\<lambda>losx. bind (broadcast2 (*) (map cos (leaf_thetas qt)) (map (\<lambda>p. - sin p) (leaf_phis qt)))
        (\<lambda>losy.
           let losz = map (\<lambda>t. - sin t) (leaf_thetas qt);
               dataptid = arange 1 (length losx + 1);
               xym = from_latlon xyll1 xyll0;
               xkm = map (\<lambda>e. e / 1000) (fst xym);
               ykm = map (\<lambda>n. n / 1000) (snd xym)
           in column_stack [xkm, ykm, leaf_means qt, losx, losy, losz, dataptid])))"

text \<open>Decimal digits of a natural number.\<close>

fun digits :: "nat \<Rightarrow> string" where
  "digits n =
     (if n < 10 then [char_of (48 + n)]
      else digits (n div 10) @ [char_of (48 + n mod 10)])"

declare digits.simps [simp del]

text \<open>
  The conversion \<^verbatim>\<open>%d\<close> of a float: the number is truncated towards zero and written
  in decimal.
\<close>

definition pct_d :: "real \<Rightarrow> string" where
  "pct_d x =
     (let t = (if 0 \<le> x then \<lfloor>x\<rfloor> else \<lceil>x\<rceil>)
      in if t < 0 then CHR ''-'' # digits (nat (- t)) else digits (nat t))"

text \<open>
  One line of \<^verbatim>\<open>np.savetxt(outfile,okinv_data,fmt='%f %f %f %f %f %f %d')\<close>: the
  format applied to the row. A row that has not seven columns raises ValueError (fmt has
  wrong number of % formats). The conversion \<^verbatim>\<open>%f\<close> of a float is the parameter
  \<open>pct_f\<close>.
\<close>

definition format_row :: "(real \<Rightarrow> string) \<Rightarrow> real list \<Rightarrow> error + string" where
  "format_row pct_f row =
     (case row of
        [c0, c1, c2, c3, c4, c5, c6] \<Rightarrow>
          Inr (pct_f c0 @ '' '' @ pct_f c1 @ '' '' @ pct_f c2 @ '' '' @ pct_f c3 @ '' '' @
               pct_f c4 @ '' '' @ pct_f c5 @ '' '' @ pct_d c6)
      | _ \<Rightarrow> Inl ValueError)"

text \<open>The lines that \<^verbatim>\<open>np.savetxt\<close> writes, one per row, in row order.\<close>

fun savetxt :: "(real \<Rightarrow> string) \<Rightarrow> real list list \<Rightarrow> error + string list" where
  "savetxt pct_f [] = Inr []"
| "savetxt pct_f (row # rows) =
     bind (format_row pct_f row) (\<lambda>l. bind (savetxt pct_f rows) (\<lambda>ls. Inr (l # ls)))"

definition okinv_file ::
  "(real \<Rightarrow> string) \<Rightarrow> (real list \<Rightarrow> real list \<Rightarrow> real list \<times> real list) \<Rightarrow> quadtree
   \<Rightarrow> real \<Rightarrow> real \<Rightarrow> error + string list" where
  "okinv_file pct_f from_latlon qt reflon reflat =
     bind (okinv_data from_latlon qt reflon reflat) (savetxt pct_f)"

text \<open>
  The output row of leaf \<open>i\<close> (counted from 0) as the output format describes it:
  x in km, y in km, displacement, the three line-of-sight components and the id.
\<close>

definition okinv_row :: "real list \<Rightarrow> real list \<Rightarrow> quadtree \<Rightarrow> nat \<Rightarrow> real list" where
  "okinv_row easting northing qt i =
     [easting ! i / 1000, northing ! i / 1000, leaf_means qt ! i,
      losx_at (leaf_thetas qt ! i) (leaf_phis qt ! i),
      losy_at (leaf_thetas qt ! i) (leaf_phis qt ! i),
      losz_at (leaf_thetas qt ! i), real (i + 1)]"

definition okinv_line ::
  "(real \<Rightarrow> string) \<Rightarrow> real list \<Rightarrow> real list \<Rightarrow> quadtree \<Rightarrow> nat \<Rightarrow> string" where
  "okinv_line pct_f easting northing qt i =
     pct_f (easting ! i / 1000) @ '' '' @ pct_f (northing ! i / 1000) @ '' '' @
     pct_f (leaf_means qt ! i) @ '' '' @
     pct_f (losx_at (leaf_thetas qt ! i) (leaf_phis qt ! i)) @ '' '' @
     pct_f (losy_at (leaf_thetas qt ! i) (leaf_phis qt ! i)) @ '' '' @
     pct_f (losz_at (leaf_thetas qt ! i)) @ '' '' @ digits (i + 1)"

section \<open>Penalties and residuals of the forward model\<close>

text \<open>
  \<open>d\<close> is the column \<^verbatim>\<open>data[:,2]\<close> of observed displacements and \<open>m\<close> the array
  \<^verbatim>\<open>model_los_disps\<close> of predicted ones.
  \<^verbatim>\<open>penalty = np.sum(np.square(data[:,2]-model_los_disps))\<close>
\<close>

definition penalty :: "real list \<Rightarrow> real list \<Rightarrow> error + float" where
  "penalty d m = bind (np_sub (arr d) (arr m)) (\<lambda>r. Inr (np_sum (np_square r)))"

text \<open>\<^verbatim>\<open>zero_shift = np.mean(data[:,2]-model_los_disps)\<close>\<close>

definition zero_shift :: "real list \<Rightarrow> real list \<Rightarrow> error + float" where
  "zero_shift d m = bind (np_sub (arr d) (arr m)) (\<lambda>r. Inr (np_mean r))"

text \<open>\<^verbatim>\<open>penalty = np.sum(np.square((data[:,2]-zero_shift)-model_los_disps))\<close>\<close>

definition penalty_shifted :: "real list \<Rightarrow> real list \<Rightarrow> error + float" where
  "penalty_shifted d m =
     bind (zero_shift d m)
       (\<lambda>s. bind (np_sub (np_sub_scalar (arr d) s) (arr m))
          (\<lambda>r. Inr (np_sum (np_square r))))"

text \<open>
  The contract of the residual computation in the words of the specification: the sum
  of squared residuals, the mean residual, and the sum of squares recomputed after the
  mean residual is subtracted from the observed values.
\<close>

definition spec_sum_sq_residuals :: "real list \<Rightarrow> real list \<Rightarrow> real" where
  "spec_sum_sq_residuals obs pred = (\<Sum>i<length obs. (obs ! i - pred ! i)\<^sup>2)"

definition spec_mean_residual :: "real list \<Rightarrow> real list \<Rightarrow> real" where
  "spec_mean_residual obs pred = (\<Sum>i<length obs. obs ! i - pred ! i) / real (length obs)"

definition spec_corrected_penalty :: "real list \<Rightarrow> real list \<Rightarrow> real" where
  "spec_corrected_penalty obs pred =
     (\<Sum>i<length obs. ((obs ! i - spec_mean_residual obs pred) - pred ! i)\<^sup>2)"

subsection \<open>The same computation in double precision\<close>

text \<open>
  numpy computes with IEEE doubles: the result of every arithmetic operation is the
  exact result rounded to the nearest double, a tie going to the double with the even
  mantissa. \<open>f64\<close> is that rounding, for results within the range of the finite
  doubles (a result beyond it is infinite in numpy, which is not modelled).
  \<open>round_even\<close> rounds to the nearest integer, \<open>ilog2 a\<close> is the integer \<open>k\<close> with
  \<open>2^k \<le> a < 2^(k+1)\<close> for \<open>a > 0\<close>, and a double has a mantissa of 53 bits and an
  exponent not below \<open>-1074\<close>.
\<close>

definition round_even :: "real \<Rightarrow> int" where
  "round_even x =
     (let f = \<lfloor>x\<rfloor>; r = x - of_int f
      in if r < 1 / 2 then f else if 1 / 2 < r then f + 1 else if even f then f else f + 1)"

definition ilog2 :: "real \<Rightarrow> int" where
  "ilog2 a = (if 1 \<le> a then bitlen \<lfloor>a\<rfloor> - 1 else - bitlen (\<lceil>1 / a\<rceil> - 1))"

definition pow2 :: "int \<Rightarrow> real" where
  "pow2 e = (if 0 \<le> e then 2 ^ nat e else 1 / 2 ^ nat (- e))"

definition f64 :: "real \<Rightarrow> real" where
  "f64 x =
     (if x = 0 then 0
      else let e = max (ilog2 \<bar>x\<bar> - 52) (- 1074)
           in of_int (round_even (x / pow2 e)) * pow2 e)"

text \<open>An arithmetic operation on doubles: NaN for a NaN operand, else the rounded result.\<close>

definition flift2_f64 :: "(real \<Rightarrow> real \<Rightarrow> real) \<Rightarrow> float \<Rightarrow> float \<Rightarrow> float" where
  "flift2_f64 f a b = map_option f64 (flift2 f a b)"

text \<open>
  \<^verbatim>\<open>np.sum\<close> adds the elements of an array of fewer than 8 elements one after the
  other, from the first to the last, starting from 0. It adds a longer array in blocks,
  in another order; that sum is the parameter \<open>sum8\<close>.
\<close>

definition np_sum_f64 :: "(float list \<Rightarrow> float) \<Rightarrow> float list \<Rightarrow> float" where
  "np_sum_f64 sum8 a = (if length a < 8 then foldl (flift2_f64 (+)) (Some 0) a else sum8 a)"

definition np_mean_f64 :: "(float list \<Rightarrow> float) \<Rightarrow> float list \<Rightarrow> float" where
  "np_mean_f64 sum8 a =
     (if a = [] then nan else flift2_f64 (/) (np_sum_f64 sum8 a) (Some (real (length a))))"

text \<open>
  The three lines of the notebook again, on vectors of doubles:
  \<^verbatim>\<open>penalty = np.sum(np.square(data[:,2]-model_los_disps))\<close>,
  \<^verbatim>\<open>zero_shift = np.mean(data[:,2]-model_los_disps)\<close> and
  \<^verbatim>\<open>penalty = np.sum(np.square((data[:,2]-zero_shift)-model_los_disps))\<close>.
\<close>

definition penalty_f64 :: "(float list \<Rightarrow> float) \<Rightarrow> real list \<Rightarrow> real list \<Rightarrow> error + float" where
  "penalty_f64 sum8 d m =
     bind (broadcast2 (flift2_f64 (-)) (arr d) (arr m))
       (\<lambda>r. Inr (np_sum_f64 sum8 (map (\<lambda>x. flift2_f64 (*) x x) r)))"

definition zero_shift_f64 :: "(float list \<Rightarrow> float) \<Rightarrow> real list \<Rightarrow> real list \<Rightarrow> error + float" where
  "zero_shift_f64 sum8 d m =
     bind (broadcast2 (flift2_f64 (-)) (arr d) (arr m)) (\<lambda>r. Inr (np_mean_f64 sum8 r))"

definition penalty_shifted_f64 ::
  "(float list \<Rightarrow> float) \<Rightarrow> real list \<Rightarrow> real list \<Rightarrow> error + float" where
  "penalty_shifted_f64 sum8 d m =
     bind (zero_shift_f64 sum8 d m)
       (\<lambda>s. bind (broadcast2 (flift2_f64 (-)) (map (\<lambda>x. flift2_f64 (-) x s) (arr d)) (arr m))
          (\<lambda>r. Inr (np_sum_f64 sum8 (map (\<lambda>x. flift2_f64 (*) x x) r))))"

section \<open>Multilooking\<close>










section \<open>Facts about the array operations\<close>

lemma bind_Inr [simp]: "bind (Inr x) f = f x"
  by (simp add: bind_def)

lemma bind_Inl [simp]: "bind (Inl e) f = Inl e"
  by (simp add: bind_def)

lemma broadcast2_same_length:
  "length a = length b \<Longrightarrow> broadcast2 f a b = Inr (map2 f a b)"
  by (simp add: broadcast2_def)

lemma np_sum_arr: "np_sum (arr xs) = Some (sum_list xs)"
  by (induction xs) (simp_all add: np_sum_def arr_def fadd_def flift2_def)

lemma np_square_arr: "np_square (arr xs) = arr (map (\<lambda>x. x * x) xs)"
  by (simp add: np_square_def arr_def fmul_def flift2_def)

lemma np_sub_arr:
  "length d = length m \<Longrightarrow> np_sub (arr d) (arr m) = Inr (arr (map2 (-) d m))"
  by (auto simp add: np_sub_def broadcast2_same_length arr_def fsub_def flift2_def zip_map_map)

lemma np_sub_scalar_arr: "np_sub_scalar (arr d) (Some s) = arr (map (\<lambda>x. x - s) d)"
  by (simp add: np_sub_scalar_def arr_def fsub_def flift2_def)

lemma np_mean_arr:
  "xs \<noteq> [] \<Longrightarrow> np_mean (arr xs) = Some (sum_list xs / real (length xs))"
  by (simp add: np_mean_def np_sum_arr flift2_def) (simp add: arr_def)

lemma length_arange [simp]: "length (arange a b) = b - a"
  by (simp add: arange_def)

lemma arange_nth: "i < n \<Longrightarrow> arange (Suc 0) (Suc n) ! i = 1 + real i"
  by (simp add: arange_def del: upt_Suc)

lemma shape_lt_scalar [simp]: "shape (lt_scalar a c) = shape a"
  by (simp add: shape_def lt_scalar_def)

lemma shape_imul_scalar [simp]: "shape (imul_scalar a k) = shape a"
  by (simp add: shape_def imul_scalar_def)

lemma shape_cell_update [simp]: "shape (a\<lparr>cell := f\<rparr>) = shape a"
  by (simp add: shape_def)

lemma cell_lt_scalar [simp]: "cell (lt_scalar a c) i j = flt (cell a i j) c"
  by (simp add: lt_scalar_def)

lemma cell_imul_scalar [simp]: "cell (imul_scalar a k) i j = fmul (cell a i j) k"
  by (simp add: imul_scalar_def)

lemma imul_scalar_cell_update:
  "imul_scalar (a\<lparr>cell := f\<rparr>) k = a\<lparr>cell := (\<lambda>i j. fmul (f i j) k)\<rparr>"
  by (simp add: imul_scalar_def)

lemma shape_eq_not_rejected: "shape m = shape a \<Longrightarrow> \<not> mask_rejected a m"
  by (simp add: mask_rejected_def shape_def)

lemma mask_rejected_lt_scalar [simp]: "mask_rejected a (lt_scalar m c) = mask_rejected a m"
  by (simp add: mask_rejected_def lt_scalar_def)

lemma mask_rejected_imul_scalar [simp]: "mask_rejected (imul_scalar a k) m = mask_rejected a m"
  by (simp add: mask_rejected_def imul_scalar_def)

lemma mask_rejected_cell_update [simp]: "mask_rejected (a\<lparr>cell := f\<rparr>) m = mask_rejected a m"
  by (simp add: mask_rejected_def)

lemma setitem_mask_Inr:
  "shape m = shape a \<Longrightarrow>
   setitem_mask a m v = Inr (a\<lparr>cell := (\<lambda>i j. if cell m i j then v else cell a i j)\<rparr>)"
  by (simp add: setitem_mask_def shape_eq_not_rejected)



lemma fmul_nan [simp]: "fmul nan k = nan"
  by (simp add: fmul_def flift2_def nan_def)

section \<open>The line-of-sight vector\<close>

lemma los_sum_squares:
  "(losx_at theta phi)\<^sup>2 + (losy_at theta phi)\<^sup>2 + (losz_at theta)\<^sup>2 = 1"
proof -
  have "(losx_at theta phi)\<^sup>2 + (losy_at theta phi)\<^sup>2
        = (cos theta)\<^sup>2 * (cos phi)\<^sup>2 + (cos theta)\<^sup>2 * (sin phi)\<^sup>2"
    by (simp add: losx_at_def losy_at_def power_mult_distrib)
  also have "\<dots> = (cos theta)\<^sup>2 * ((cos phi)\<^sup>2 + (sin phi)\<^sup>2)"
    by (simp only: distrib_left)
  also have "\<dots> = (cos theta)\<^sup>2"
    by simp
  finally show ?thesis
    by (simp add: losz_at_def)
qed

text \<open>
  C1. For every incidence angle \<open>theta\<close> in \<open>[0, \<pi>/2]\<close> and azimuth \<open>phi\<close> in
  \<open>[0, 2\<pi>)\<close> the three line-of-sight components computed by the reformatter form a
  vector of length exactly 1 over the reals.
\<close>

theorem los_unit_vector:
  assumes "0 \<le> theta" and "theta \<le> pi / 2" and "0 \<le> phi" and "phi < 2 * pi"
  shows "los_norm theta phi = 1"
  by (simp add: los_norm_def los_sum_squares)

text \<open>The vector at \<open>theta = 0\<close>, \<open>phi = 0\<close>.\<close>

theorem los_unit_vector_witness:
  "(0::real) \<le> 0 \<and> (0::real) \<le> pi / 2 \<and> (0::real) < 2 * pi \<and> los_norm 0 0 = 1"
  using los_unit_vector [of 0 0] by simp

section \<open>The angle convention\<close>

text \<open>
  C7, as stated, fails: for an incidence angle of 30 degrees from the vertical the
  scene's \<open>theta\<close> is not 30 degrees in radians (it is 60 degrees in radians).
\<close>

theorem scene_theta_not_incidence:
  "scene_theta 30 \<noteq> radians 30"
  by (simp add: scene_theta_def radians_def)

text \<open>
  C7, amended. The scene's \<open>theta\<close> is \<open>\<pi>/2\<close> minus the incidence angle, that is the
  elevation of the look vector above the horizontal, and the scene's \<open>phi\<close> is \<open>\<pi>/2\<close>
  plus the azimuth band, both in radians; the vertical line-of-sight component is then
  minus the cosine of the incidence angle.
\<close>

theorem scene_angles_convention:
  "scene_theta inc = pi / 2 - radians inc \<and>
   scene_phi azi = pi / 2 + radians azi \<and>
   losz_at (scene_theta inc) = - cos (radians inc)"
proof -
  have t: "scene_theta inc = pi / 2 - radians inc"
    by (simp add: scene_theta_def radians_def field_simps)
  have p: "scene_phi azi = pi / 2 + radians azi"
    by (simp add: scene_phi_def radians_def field_simps)
  have "losz_at (scene_theta inc) = - sin (pi / 2 - radians inc)"
    by (simp add: losz_at_def t)
  also have "\<dots> = - cos (radians inc)"
    by (simp add: sin_cos_eq)
  finally show ?thesis
    using t p by simp
qed

section \<open>The mask and convert stage\<close>

lemma cell_update_cong:
  "(\<And>i j. f i j = g i j) \<Longrightarrow> a\<lparr>cell := f\<rparr> = a\<lparr>cell := g\<rparr>"
proof -
  assume "\<And>i j. f i j = g i j"
  then have "f = g" by (simp add: fun_eq_iff)
  then show ?thesis by simp
qed

lemma setitem_mask_update:
  "shape m = shape a \<Longrightarrow>
   setitem_mask (a\<lparr>cell := f\<rparr>) m v = Inr (a\<lparr>cell := (\<lambda>i j. if cell m i j then v else f i j)\<rparr>)"
  by (simp add: setitem_mask_def shape_eq_not_rejected cong del: if_weak_cong)

lemma imul_scalar_eq: "imul_scalar a k = a\<lparr>cell := (\<lambda>i j. fmul (cell a i j) k)\<rparr>"
  by (simp add: imul_scalar_def)

lemma mask_convert_Inr:
  assumes "shapes_match ifg cor msk"
  shows "mask_convert ifg cor msk wavel cor_thresh =
         Inr (ifg\<lparr>cell := (\<lambda>i j. if masked cor msk cor_thresh i j then nan
                                 else fmul (cell ifg i j) (Some (wavel / (4 * pi))))\<rparr>)"
proof (cases msk)
  case None
  have "mask_convert ifg cor None wavel cor_thresh =
        Inr (ifg\<lparr>cell := (\<lambda>i j. if flt (cell cor i j) (Some cor_thresh) then nan
                                else fmul (cell ifg i j) (Some (wavel / (4 * pi))))\<rparr>)"
    using assms None
    by (simp only: mask_convert_def option.case bind_Inr imul_scalar_eq divide_divide_eq_left)
       (simp add: setitem_mask_update shapes_match_def)
  then show ?thesis
    using None by (simp add: masked_def)
next
  case (Some m)
  have sm: "shape m = shape ifg" and sc: "shape cor = shape ifg"
    using assms Some by (simp_all add: shapes_match_def)
  have "setitem_mask ifg (lt_scalar m (Some 1)) nan =
        Inr (ifg\<lparr>cell := (\<lambda>i j. if flt (cell m i j) (Some 1) then nan else cell ifg i j)\<rparr>)"
    using sm by (simp add: setitem_mask_Inr)
  then have "mask_convert ifg cor (Some m) wavel cor_thresh =
        Inr (ifg\<lparr>cell := (\<lambda>i j. if flt (cell cor i j) (Some cor_thresh) then nan
                                else fmul (if flt (cell m i j) (Some 1) then nan else cell ifg i j)
                                       (Some (wavel / (4 * pi))))\<rparr>)"
    using sc
    by (simp only: mask_convert_def option.case bind_Inr imul_scalar_cell_update divide_divide_eq_left)
       (simp add: setitem_mask_update)
  also have "\<dots> = Inr (ifg\<lparr>cell := (\<lambda>i j. if masked cor (Some m) cor_thresh i j then nan
                                 else fmul (cell ifg i j) (Some (wavel / (4 * pi))))\<rparr>)"
  proof -
    have "ifg\<lparr>cell := (\<lambda>i j. if flt (cell cor i j) (Some cor_thresh) then nan
                                else fmul (if flt (cell m i j) (Some 1) then nan else cell ifg i j)
                                       (Some (wavel / (4 * pi))))\<rparr>
        = ifg\<lparr>cell := (\<lambda>i j. if masked cor (Some m) cor_thresh i j then nan
                                 else fmul (cell ifg i j) (Some (wavel / (4 * pi))))\<rparr>"
      by (rule cell_update_cong) (simp add: masked_def)
    then show ?thesis by (simp only:)
  qed
  finally show ?thesis
    using Some by simp
qed

lemma mask_convert_2021_Inr:
  assumes "shapes_match displacement cor (Some msk)"
  shows "mask_convert_2021 displacement cor msk wavel cor_thresh =
         Inr (displacement\<lparr>cell := (\<lambda>i j. if masked cor (Some msk) cor_thresh i j then nan
                                 else fmul (cell displacement i j) (Some (wavel / (4 * pi))))\<rparr>)"
proof -
  have sm: "shape msk = shape displacement" and sc: "shape cor = shape displacement"
    using assms by (simp_all add: shapes_match_def)
  have "setitem_mask (imul_scalar displacement (Some (wavel / 4 / pi))) (lt_scalar msk (Some 1)) nan =
        Inr (displacement\<lparr>cell := (\<lambda>i j. if flt (cell msk i j) (Some 1) then nan
                                else fmul (cell displacement i j) (Some (wavel / (4 * pi))))\<rparr>)"
    using sm by (simp only: imul_scalar_eq divide_divide_eq_left) (simp add: setitem_mask_update)
  then have "mask_convert_2021 displacement cor msk wavel cor_thresh =
        Inr (displacement\<lparr>cell := (\<lambda>i j. if flt (cell cor i j) (Some cor_thresh) then nan
                                else if flt (cell msk i j) (Some 1) then nan
                                else fmul (cell displacement i j) (Some (wavel / (4 * pi))))\<rparr>)"
    using sc
    by (simp only: mask_convert_2021_def bind_Inr) (simp add: setitem_mask_update)
  also have "\<dots> = Inr (displacement\<lparr>cell := (\<lambda>i j. if masked cor (Some msk) cor_thresh i j then nan
                                 else fmul (cell displacement i j) (Some (wavel / (4 * pi))))\<rparr>)"
  proof -
    have "displacement\<lparr>cell := (\<lambda>i j. if flt (cell cor i j) (Some cor_thresh) then nan
                                else if flt (cell msk i j) (Some 1) then nan
                                else fmul (cell displacement i j) (Some (wavel / (4 * pi))))\<rparr>
        = displacement\<lparr>cell := (\<lambda>i j. if masked cor (Some msk) cor_thresh i j then nan
                                 else fmul (cell displacement i j) (Some (wavel / (4 * pi))))\<rparr>"
      by (rule cell_update_cong) (simp add: masked_def)
    then show ?thesis by (simp only:)
  qed
  finally show ?thesis .
qed

text \<open>
  C4. Given a phase grid, a wavelength, a coherence grid and a coherence threshold, and
  optionally a water-mask grid, all of the same shape, the stage returns a grid of that
  shape in which every pixel whose coherence is strictly below the threshold, or whose
  water-mask value is strictly below 1, is NaN, and every other pixel is the input phase
  multiplied by \<open>wavelength / (4\<pi>)\<close>. The notebook of 2021, which always has the
  water mask, returns the same grid.
\<close>

theorem mask_convert_pixels:
  assumes "shapes_match ifg cor msk"
  shows "\<exists>out. mask_convert ifg cor msk wavel cor_thresh = Inr out \<and>
           (\<forall>m. msk = Some m \<longrightarrow> mask_convert_2021 ifg cor m wavel cor_thresh = Inr out) \<and>
           shape out = shape ifg \<and>
           (\<forall>i<nrows ifg. \<forall>j<ncols ifg.
              cell out i j =
                (if masked cor msk cor_thresh i j then nan
                 else fmul (cell ifg i j) (Some (wavel / (4 * pi)))))"
proof -
  let ?out = "ifg\<lparr>cell := (\<lambda>i j. if masked cor msk cor_thresh i j then nan
                                 else fmul (cell ifg i j) (Some (wavel / (4 * pi))))\<rparr>"
  have a: "mask_convert ifg cor msk wavel cor_thresh = Inr ?out"
    by (rule mask_convert_Inr [OF assms])
  have b: "mask_convert_2021 ifg cor m wavel cor_thresh = Inr ?out" if "msk = Some m" for m
    using assms that by (simp add: mask_convert_2021_Inr)
  show ?thesis
    using a b by (intro exI [of _ ?out]) simp
qed

text \<open>
  A grid of one row and two columns of phase 8 with wavelength 1: the first pixel has
  coherence 1/10, below the threshold 1/4, and becomes NaN; the second has coherence
  9/10 and becomes \<open>8 / (4\<pi>)\<close>.
\<close>

theorem mask_convert_pixels_witness:
  "\<exists>out. mask_convert \<lparr>nrows = 1, ncols = 2, cell = (\<lambda>i j. Some 8)\<rparr>
            \<lparr>nrows = 1, ncols = 2, cell = (\<lambda>i j. if j = 0 then Some (1 / 10) else Some (9 / 10))\<rparr>
            (Some \<lparr>nrows = 1, ncols = 2, cell = (\<lambda>i j. Some 1)\<rparr>) 1 (1 / 4) = Inr out \<and>
         shape out = (1, 2) \<and> cell out 0 0 = nan \<and> cell out 0 1 = Some (8 * (1 / (4 * pi)))"
proof -
  let ?ifg = "\<lparr>nrows = 1, ncols = 2, cell = (\<lambda>i j. Some (8::real))\<rparr>"
  let ?cor = "\<lparr>nrows = 1, ncols = 2,
               cell = (\<lambda>i j::nat. if j = 0 then Some (1 / 10 :: real) else Some (9 / 10))\<rparr>"
  let ?msk = "Some \<lparr>nrows = 1, ncols = 2, cell = (\<lambda>i j. Some (1::real))\<rparr>"
  have "shapes_match ?ifg ?cor ?msk"
    by (simp add: shapes_match_def shape_def)
  from mask_convert_pixels [OF this, of 1 "1 / 4"]
  obtain out where run: "mask_convert ?ifg ?cor ?msk 1 (1 / 4) = Inr out"
    and sh: "shape out = shape ?ifg"
    and px: "\<forall>i<nrows ?ifg. \<forall>j<ncols ?ifg. cell out i j =
               (if masked ?cor ?msk (1 / 4) i j then nan
                else fmul (cell ?ifg i j) (Some (1 / (4 * pi))))"
    by blast
  have "cell out 0 0 = nan"
    using px by (simp add: masked_def flt_def)
  moreover have "cell out 0 1 = Some (8 * (1 / (4 * pi)))"
    using px by (simp add: masked_def flt_def fmul_def flift2_def)
  ultimately show ?thesis
    using run sh by (simp add: shape_def)
qed









section \<open>The output file of the reformatter\<close>

lemma savetxt_map:
  assumes "\<forall>x\<in>set xs. format_row pct_f (g x) = Inr (h x)"
  shows "savetxt pct_f (map g xs) = Inr (map h xs)"
  using assms by (induction xs) simp_all

lemma pct_d_of_nat: "pct_d (real k) = digits k"
  by (simp add: pct_d_def)

lemma okinv_data_eq:
  assumes "length (leaf_focal_points qt) = n" and "length (leaf_thetas qt) = n"
    and "length (leaf_phis qt) = n" and "length (leaf_means qt) = n"
    and "from_latlon (map (\<lambda>p. snd p + reflat) (leaf_focal_points qt))
                     (map (\<lambda>p. fst p + reflon) (leaf_focal_points qt)) = (easting, northing)"
    and "length easting = n" and "length northing = n"
  shows "okinv_data from_latlon qt reflon reflat = Inr (map (okinv_row easting northing qt) [0..<n])"
proof -
  have "map (\<lambda>i. map (\<lambda>col. col ! i)
          [map (\<lambda>e. e / 1000) easting, map (\<lambda>n. n / 1000) northing, leaf_means qt,
           map2 (*) (map cos (leaf_thetas qt)) (map (\<lambda>p. - cos p) (leaf_phis qt)),
           map2 (*) (map cos (leaf_thetas qt)) (map (\<lambda>p. - sin p) (leaf_phis qt)),
           map (\<lambda>t. - sin t) (leaf_thetas qt), arange 1 (n + 1)]) [0..<n]
        = map (okinv_row easting northing qt) [0..<n]"
    using assms(2,3,4,6,7)
    by (intro map_cong) (simp_all add: okinv_row_def losx_at_def losy_at_def losz_at_def arange_nth)
  then show ?thesis
    using assms
    by (simp add: okinv_data_def broadcast2_same_length column_stack_def Let_def)
qed

lemma format_okinv_row:
  "format_row pct_f (okinv_row easting northing qt i) = Inr (okinv_line pct_f easting northing qt i)"
  by (simp add: format_row_def okinv_row_def okinv_line_def pct_d_of_nat [of "i + 1", simplified])

text \<open>
  C5. For a tile set of \<open>n\<close> leaves the reformatter writes exactly one row per leaf:
  \<open>n\<close> rows of seven columns (x in km, y in km, displacement, the three unit
  line-of-sight components, and the id), each written as one line of seven fields
  separated by single spaces with the id as a decimal integer, and the ids in row order
  are 1, 2, ..., \<open>n\<close>.
\<close>

theorem okinv_output:
  assumes "length (leaf_focal_points qt) = n" and "length (leaf_thetas qt) = n"
    and "length (leaf_phis qt) = n" and "length (leaf_means qt) = n"
    and "from_latlon (map (\<lambda>p. snd p + reflat) (leaf_focal_points qt))
                     (map (\<lambda>p. fst p + reflon) (leaf_focal_points qt)) = (easting, northing)"
    and "length easting = n" and "length northing = n"
  shows "\<exists>rows lines.
           okinv_data from_latlon qt reflon reflat = Inr rows \<and>
           okinv_file pct_f from_latlon qt reflon reflat = Inr lines \<and>
           length rows = n \<and> length lines = n \<and>
           map (\<lambda>row. row ! 6) rows = map real [1..<n + 1] \<and>
           (\<forall>i<n. length (rows ! i) = 7 \<and>
                  rows ! i = okinv_row easting northing qt i \<and>
                  lines ! i = okinv_line pct_f easting northing qt i)"
proof -
  let ?rows = "map (okinv_row easting northing qt) [0..<n]"
  let ?lines = "map (okinv_line pct_f easting northing qt) [0..<n]"
  have d: "okinv_data from_latlon qt reflon reflat = Inr ?rows"
    by (rule okinv_data_eq) (fact assms)+
  have f: "okinv_file pct_f from_latlon qt reflon reflat = Inr ?lines"
    by (simp add: okinv_file_def d savetxt_map format_okinv_row)
  have ids: "map (\<lambda>row. row ! 6) ?rows = map real [1..<n + 1]"
    by (simp add: okinv_row_def o_def map_Suc_upt [symmetric] del: upt_Suc)
  have "\<forall>i<n. length (?rows ! i) = 7 \<and> ?rows ! i = okinv_row easting northing qt i \<and>
              ?lines ! i = okinv_line pct_f easting northing qt i"
    by (simp add: okinv_row_def)
  with d f ids show ?thesis
    by (intro exI [of _ ?rows] exI [of _ ?lines]) simp
qed

text \<open>
  Two leaves with angles 0, a projection that scales degrees by 1000, and every float
  field written as \<open>f\<close>: the file has the two lines with the ids 1 and 2.
\<close>

theorem okinv_output_witness:
  "okinv_file (\<lambda>x. ''f'') (\<lambda>lats lons. (map (\<lambda>x. 1000 * x) lons, map (\<lambda>x. 1000 * x) lats))
     \<lparr>leaf_focal_points = [(0, 0), (1, 1)], leaf_thetas = [0, 0], leaf_phis = [0, 0],
      leaf_means = [3, 4]\<rparr> 0 0
   = Inr [''f f f f f f 1'', ''f f f f f f 2'']"
proof -
  let ?pf = "\<lambda>x::real. ''f''"
  let ?ll = "\<lambda>lats lons :: real list. (map (\<lambda>x. 1000 * x) lons, map (\<lambda>x. 1000 * x) lats)"
  let ?qt = "\<lparr>leaf_focal_points = [(0, 0), (1, 1)], leaf_thetas = [0, 0], leaf_phis = [0, 0],
      leaf_means = [3, 4]\<rparr>"
  have "\<exists>rows lines.
           okinv_data ?ll ?qt 0 0 = Inr rows \<and>
           okinv_file ?pf ?ll ?qt 0 0 = Inr lines \<and>
           length rows = 2 \<and> length lines = 2 \<and>
           map (\<lambda>row. row ! 6) rows = map real [1..<2 + 1] \<and>
           (\<forall>i<2. length (rows ! i) = 7 \<and>
                  rows ! i = okinv_row [0, 1000] [0, 1000] ?qt i \<and>
                  lines ! i = okinv_line ?pf [0, 1000] [0, 1000] ?qt i)"
    by (rule okinv_output) simp_all
  then obtain lines where f: "okinv_file ?pf ?ll ?qt 0 0 = Inr lines"
    and len: "length lines = 2"
    and l: "\<forall>i<2. lines ! i = okinv_line ?pf [0, 1000] [0, 1000] ?qt i"
    by blast
  have d1: "digits (0 + 1) = ''1''" and d2: "digits (1 + 1) = ''2''"
    by code_simp+
  have "lines ! 0 = okinv_line ?pf [0, 1000] [0, 1000] ?qt 0"
    and "lines ! 1 = okinv_line ?pf [0, 1000] [0, 1000] ?qt 1"
    using l by simp_all
  then have "lines ! 0 = ''f f f f f f 1''" and "lines ! 1 = ''f f f f f f 2''"
    by (simp_all only: okinv_line_def d1 d2 append.simps)
  moreover have "lines = [lines ! 0, lines ! 1]"
    using len by (cases lines; cases "tl lines") auto
  ultimately have "lines = [''f f f f f f 1'', ''f f f f f f 2'']"
    by simp
  with f show ?thesis by simp
qed

section \<open>Penalties\<close>

lemma sum_list_map2_nth:
  "length d = length m \<Longrightarrow>
   sum_list (map f (map2 g d m)) = (\<Sum>i<length d. f (g (d ! i) (m ! i)))"
  by (simp add: sum_list_sum_nth atLeast0LessThan)

lemma sum_list_shift_sq:
  fixes rs :: "real list"
  shows "sum_list (map (\<lambda>r. (r - s) * (r - s)) rs)
       = sum_list (map (\<lambda>r. r * r) rs) - 2 * s * sum_list rs + real (length rs) * s * s"
  by (induction rs) (simp_all add: algebra_simps)

lemma penalty_eq:
  assumes "length d = length m"
  shows "penalty d m = Inr (Some (sum_list (map (\<lambda>r. r * r) (map2 (-) d m))))"
  using assms by (simp add: penalty_def np_sub_arr np_square_arr np_sum_arr)

lemma zero_shift_eq:
  assumes "length d = length m" and "d \<noteq> []"
  shows "zero_shift d m = Inr (Some (sum_list (map2 (-) d m) / real (length d)))"
proof -
  have "map2 (-) d m \<noteq> []"
    using assms by (cases d; cases m) simp_all
  then show ?thesis
    using assms by (simp add: zero_shift_def np_sub_arr np_mean_arr)
qed

lemma zero_shift_empty: "zero_shift [] [] = Inr nan"
  by (simp add: zero_shift_def np_sub_def broadcast2_def arr_def np_mean_def)

lemma penalty_shifted_eq:
  assumes "length d = length m" and "zero_shift d m = Inr (Some s)"
  shows "penalty_shifted d m
       = Inr (Some (sum_list (map (\<lambda>r. r * r) (map2 (-) (map (\<lambda>x. x - s) d) m))))"
  using assms
  by (simp add: penalty_shifted_def np_sub_scalar_arr np_sub_arr np_square_arr np_sum_arr)

lemma penalty_shifted_empty: "penalty_shifted [] [] = Inr (Some 0)"
  by (simp add: penalty_shifted_def zero_shift_empty np_sub_scalar_def arr_def np_sub_def
      broadcast2_def np_square_def np_sum_def)

lemma map2_shift:
  fixes d m :: "real list"
  assumes "length d = length m"
  shows "map2 (-) (map (\<lambda>x. x - s) d) m = map (\<lambda>r. r - s) (map2 (-) d m)"
  using assms by (induction d m rule: list_induct2) simp_all

lemma np_sub_arr_numbers:
  assumes "np_sub (arr d) (arr m) = Inr r"
  shows "\<exists>xs. r = arr xs"
proof (cases "length d = length m")
  case True
  then show ?thesis
    using assms by (auto simp add: np_sub_arr)
next
  case False
  note neq = this
  show ?thesis
  proof (cases "\<exists>y. m = [y]")
    case True
    then obtain y where "m = [y]" by blast
    then have "r = arr (map (\<lambda>x. x - y) d)"
      using assms neq by (auto simp add: np_sub_def broadcast2_def arr_def fsub_def flift2_def)
    then show ?thesis by blast
  next
    case False
    then have nm: "\<And>y. arr m \<noteq> [Some y]" "\<And>y. arr m \<noteq> [y]"
      by (auto simp add: arr_def)
    show ?thesis
    proof (cases "\<exists>x. d = [x]")
      case True
      then obtain x where dx: "d = [x]" by blast
      have "broadcast2 fsub [Some x] (arr m) = Inr (map (\<lambda>y. fsub (Some x) y) (arr m))"
        using neq False dx
        by (cases m; cases "tl m") (auto simp add: broadcast2_def arr_def)
      then have "r = arr (map (\<lambda>y. x - y) m)"
        using assms dx by (auto simp add: np_sub_def arr_def fsub_def flift2_def)
      then show ?thesis by blast
    next
      case nd: False
      have "broadcast2 fsub (arr d) (arr m) = Inl ValueError"
        using neq False nd
        by (cases m; cases "tl m"; cases d; cases "tl d") (auto simp add: broadcast2_def arr_def)
      then show ?thesis
        using assms by (simp add: np_sub_def)
    qed
  qed
qed

lemma penalty_nonneg:
  assumes "penalty d m = Inr p"
  shows "\<exists>v. p = Some v \<and> 0 \<le> v"
proof -
  obtain r where r: "np_sub (arr d) (arr m) = Inr r"
    using assms by (cases "np_sub (arr d) (arr m)") (simp_all add: penalty_def)
  then obtain xs where "r = arr xs"
    using np_sub_arr_numbers by blast
  then have "p = Some (sum_list (map (\<lambda>x. x * x) xs))"
    using assms r by (simp add: penalty_def np_square_arr np_sum_arr)
  moreover have "0 \<le> sum_list (map (\<lambda>x. x * x) xs)"
    by (rule sum_list_nonneg) auto
  ultimately show ?thesis by blast
qed

text \<open>
  C6. The sum of squared residuals, whenever the two vectors can be subtracted, is a
  number that is never negative. For observed and predicted displacements at the same
  points it is the sum of the squared differences, the zero-level shift is the mean
  residual \<open>mean (observed - predicted)\<close> (NaN when there is no point), and the
  corrected penalty is the sum of squares recomputed after the shift is subtracted from
  the observed values. Each is a function of the two vectors, computed in one pass.
\<close>

theorem residual_computation:
  "(\<forall>p. penalty d m = Inr p \<longrightarrow> (\<exists>v. p = Some v \<and> 0 \<le> v)) \<and>
   (length d = length m \<longrightarrow>
      penalty d m = Inr (Some (spec_sum_sq_residuals d m)) \<and>
      zero_shift d m = Inr (if d = [] then nan else Some (spec_mean_residual d m)) \<and>
      penalty_shifted d m = Inr (Some (spec_corrected_penalty d m)))"
proof (intro conjI allI impI)
  fix p
  assume "penalty d m = Inr p"
  then show "\<exists>v. p = Some v \<and> 0 \<le> v"
    by (rule penalty_nonneg)
next
  assume len: "length d = length m"
  have "sum_list (map (\<lambda>r. r * r) (map2 (-) d m)) = spec_sum_sq_residuals d m"
    by (simp only: sum_list_map2_nth [OF len] spec_sum_sq_residuals_def power2_eq_square)
  then show "penalty d m = Inr (Some (spec_sum_sq_residuals d m))"
    by (simp only: penalty_eq [OF len])
next
  assume len: "length d = length m"
  show "zero_shift d m = Inr (if d = [] then nan else Some (spec_mean_residual d m))"
  proof (cases "d = []")
    case True
    then show ?thesis using len by (simp add: zero_shift_empty)
  next
    case False
    have "sum_list (map (\<lambda>r. r) (map2 (-) d m)) = (\<Sum>i<length d. d ! i - m ! i)"
      by (simp only: sum_list_map2_nth [OF len])
    then have "sum_list (map2 (-) d m) / real (length d) = spec_mean_residual d m"
      by (simp add: spec_mean_residual_def)
    then show ?thesis
      using False by (simp only: zero_shift_eq [OF len False] if_False)
  qed
next
  assume len: "length d = length m"
  show "penalty_shifted d m = Inr (Some (spec_corrected_penalty d m))"
  proof (cases "d = []")
    case True
    then show ?thesis
      using len by (simp add: penalty_shifted_empty spec_corrected_penalty_def)
  next
    case False
    define c where "c = sum_list (map2 (-) d m) / real (length d)"
    have "sum_list (map (\<lambda>r. r) (map2 (-) d m)) = (\<Sum>i<length d. d ! i - m ! i)"
      by (simp only: sum_list_map2_nth [OF len])
    then have c: "c = spec_mean_residual d m"
      by (simp add: spec_mean_residual_def c_def)
    have s: "zero_shift d m = Inr (Some c)"
      by (simp only: zero_shift_eq [OF len False] c_def)
    have len': "length (map (\<lambda>x. x - c) d) = length m"
      using len by simp
    have "sum_list (map (\<lambda>r. r * r) (map2 (-) (map (\<lambda>x. x - c) d) m))
          = (\<Sum>i<length d. (map (\<lambda>x. x - c) d ! i - m ! i) * (map (\<lambda>x. x - c) d ! i - m ! i))"
      using sum_list_map2_nth [OF len', of "\<lambda>r. r * r" "(-)"] by simp
    also have "\<dots> = (\<Sum>i<length d. ((d ! i - c) - m ! i)\<^sup>2)"
      by (rule sum.cong) (simp_all add: power2_eq_square)
    finally have "sum_list (map (\<lambda>r. r * r) (map2 (-) (map (\<lambda>x. x - c) d) m))
          = spec_corrected_penalty d m"
      by (simp add: spec_corrected_penalty_def c)
    then show ?thesis
      using penalty_shifted_eq [OF len s] by simp
  qed
qed

text \<open>
  Observed 1, 2, 3 against predicted 0, 0, 1: the penalty is 9, the shift 5/3 and the
  corrected penalty 2/3.
\<close>

theorem residual_computation_witness:
  "penalty [1, 2, 3] [0, 0, 1] = Inr (Some 9) \<and>
   zero_shift [1, 2, 3] [0, 0, 1] = Inr (Some (5 / 3)) \<and>
   penalty_shifted [1, 2, 3] [0, 0, 1] = Inr (Some (2 / 3))"
proof -
  have three: "{..<3::nat} = {0, 1, 2}"
    by auto
  have m: "spec_mean_residual [1, 2, 3] [0, 0, 1] = 5 / 3"
    by (simp add: spec_mean_residual_def three)
  have "spec_sum_sq_residuals [1, 2, 3] [0, 0, 1] = 9"
    by (simp add: spec_sum_sq_residuals_def three)
  moreover have "spec_corrected_penalty [1, 2, 3] [0, 0, 1] = 2 / 3"
    by (simp add: spec_corrected_penalty_def m three power2_eq_square)
  ultimately show ?thesis
    using residual_computation [of "[1, 2, 3]" "[0, 0, 1]"] m by simp
qed

lemmas f64_eval = f64_def ilog2_def round_even_def pow2_def compute_bitlen Let_def

lemma doubles_of_decimals:
  "f64 (- 3 / 2) = - 3 / 2" "f64 (17 / 10) = 7656119366529843 / 4503599627370496"
  "f64 (1 / 10) = 3602879701896397 / 36028797018963968"
  by (simp_all add: f64_eval)

lemma zero_shift_f64_example:
  "zero_shift_f64 sum8 [- 3 / 2, 7656119366529843 / 4503599627370496]
     [3602879701896397 / 36028797018963968, 3602879701896397 / 36028797018963968]
   = Inr (Some (- 1 / 9007199254740992))"
  by (simp add: zero_shift_f64_def bind_def broadcast2_def arr_def flift2_f64_def flift2_def
      np_sum_f64_def np_mean_f64_def f64_eval)

text \<open>
  C9, as stated, fails on the doubles the program computes with. For the observed values
  -1.5 and 1.7 and the predicted values 0.1 and 0.1 the penalty is 5.12 and the mean
  residual \<open>-2^-53\<close>; subtracting it turns the residuals -1.6 and 1.5999999999999999
  into -1.6 and 1.6, and the corrected penalty 5.120000000000001 is greater than the
  penalty.
\<close>

theorem zero_level_worse_in_doubles:
  "penalty_f64 (\<lambda>a. nan) [f64 (- 3 / 2), f64 (17 / 10)] [f64 (1 / 10), f64 (1 / 10)]
     = Inr (Some (5764607523034235 / 1125899906842624)) \<and>
   zero_shift_f64 (\<lambda>a. nan) [f64 (- 3 / 2), f64 (17 / 10)] [f64 (1 / 10), f64 (1 / 10)]
     = Inr (Some (- 1 / 9007199254740992)) \<and>
   penalty_shifted_f64 (\<lambda>a. nan) [f64 (- 3 / 2), f64 (17 / 10)] [f64 (1 / 10), f64 (1 / 10)]
     = Inr (Some (1441151880758559 / 281474976710656)) \<and>
   (5764607523034235 / 1125899906842624 :: real) < 1441151880758559 / 281474976710656"
proof -
  have p: "penalty_f64 (\<lambda>a. nan) [- 3 / 2, 7656119366529843 / 4503599627370496]
     [3602879701896397 / 36028797018963968, 3602879701896397 / 36028797018963968]
     = Inr (Some (5764607523034235 / 1125899906842624))"
    by (simp add: penalty_f64_def bind_def broadcast2_def arr_def flift2_f64_def flift2_def
        np_sum_f64_def f64_eval)
  have q: "penalty_shifted_f64 (\<lambda>a. nan) [- 3 / 2, 7656119366529843 / 4503599627370496]
     [3602879701896397 / 36028797018963968, 3602879701896397 / 36028797018963968]
     = Inr (Some (1441151880758559 / 281474976710656))"
    unfolding penalty_shifted_f64_def zero_shift_f64_example
    by (simp add: bind_def broadcast2_def arr_def flift2_f64_def flift2_def
        np_sum_f64_def f64_eval)
  show ?thesis
    unfolding doubles_of_decimals using p q zero_shift_f64_example [of "\<lambda>a. nan"] by simp
qed

text \<open>
  C9, amended. In exact real arithmetic, that is apart from the rounding of the
  floating-point operations, for observed and predicted vectors of the same non-zero
  length the zero-level corrected penalty is at most the uncorrected penalty, and the two
  are equal exactly when the mean residual is zero.
\<close>

theorem zero_level_never_worse:
  assumes "length d = length m" and "d \<noteq> []"
  shows "\<exists>p q s. penalty d m = Inr (Some p) \<and> zero_shift d m = Inr (Some s) \<and>
           penalty_shifted d m = Inr (Some q) \<and> q \<le> p \<and> (q = p \<longleftrightarrow> s = 0)"
proof -
  define rs where "rs = map2 (-) d m"
  define n where "n = real (length d)"
  define s where "s = sum_list rs / n"
  define p where "p = sum_list (map (\<lambda>r. r * r) rs)"
  define q where "q = sum_list (map (\<lambda>r. (r - s) * (r - s)) rs)"
  have npos: "0 < n" using assms(2) by (simp add: n_def)
  have lrs: "real (length rs) = n" using assms by (simp add: rs_def n_def)
  have P: "penalty d m = Inr (Some p)"
    using assms by (simp add: penalty_eq p_def rs_def)
  have S: "zero_shift d m = Inr (Some s)"
    using zero_shift_eq [OF assms] by (simp only: s_def rs_def n_def)
  have Q: "penalty_shifted d m = Inr (Some q)"
    using assms by (simp add: penalty_shifted_eq [OF assms(1) S] map2_shift q_def rs_def o_def)
  have "sum_list rs = n * s" using npos by (simp add: s_def)
  then have qp: "q = p - n * s * s"
    using sum_list_shift_sq [of s rs] by (simp add: q_def p_def lrs algebra_simps)
  have "0 \<le> n * (s * s)" using npos by simp
  then have le: "q \<le> p" using qp by (simp add: mult.assoc)
  have "q = p \<longleftrightarrow> s = 0" using qp npos by (simp add: mult.assoc)
  with P S Q le show ?thesis by blast
qed

text \<open>
  Observed 1, 2, 3 against predicted 0, 0, 1: the mean residual is not zero and the
  corrected penalty is strictly smaller.
\<close>

theorem zero_level_never_worse_witness:
  "length [1, 2, 3 :: real] = length [0, 0, 1 :: real] \<and> [1, 2, 3 :: real] \<noteq> [] \<and>
   (\<exists>p q. penalty [1, 2, 3] [0, 0, 1] = Inr (Some p) \<and>
          penalty_shifted [1, 2, 3] [0, 0, 1] = Inr (Some q) \<and> q < p)"
proof -
  obtain p q s where P: "penalty [1, 2, 3] [0, 0, 1] = Inr (Some p)"
    and S: "zero_shift [1, 2, 3] [0, 0, 1] = Inr (Some s)"
    and Q: "penalty_shifted [1, 2, 3] [0, 0, 1] = Inr (Some q)"
    and le: "q \<le> p" and eq: "q = p \<longleftrightarrow> s = 0"
    using zero_level_never_worse [of "[1, 2, 3]" "[0, 0, 1]"] by auto
  have "zero_shift [1, 2, 3] [0, 0, 1] = Inr (Some (5 / 3))"
    by (simp add: zero_shift_eq)
  then have "s \<noteq> 0" using S by simp
  then have "q < p" using le eq by simp
  with P Q show ?thesis by auto
qed

section \<open>The output of multiLook\<close>






end
